theory Spec2Isabelle
  imports Main
begin

section \<open>Tokens and errors\<close>

text \<open>
  The source text is a Python string. It is modelled as a \<open>string\<close>, a list of
  8-bit characters read as the code points U+0000 to U+00FF; the character classes of the
  regular expressions (\<open>\w\<close>, \<open>\d\<close>, \<open>.\<close>) are written out for that range.

  Class \<open>Token\<close>: the fields \<open>type\<close>, \<open>value\<close>, \<open>line\<close>, \<open>start_col\<close>, \<open>end_col\<close>.
\<close>

record token =
  tok_type :: string
  tok_value :: string
  tok_line :: int
  tok_start_col :: int
  tok_end_col :: int

text \<open>
  The exceptions the code can raise: the \<open>RuntimeError\<close> of \<open>Lexer.tokenize\<close>, carrying
  the offending text and the line of its message; \<open>AttributeError\<close>, from reading
  \<open>.type\<close> or \<open>.value\<close> of \<open>None\<close>; \<open>TypeError\<close>, from \<open>str += None\<close>.
\<close>

datatype error = RuntimeError string int | AttributeError | TypeError

section \<open>The lexical patterns\<close>

abbreviation dquote :: char where "dquote \<equiv> CHR 0x22"
abbreviation newline :: char where "newline \<equiv> CHR 0x0A"
abbreviation tab :: char where "tab \<equiv> CHR 0x09"
abbreviation space :: char where "space \<equiv> CHR 0x20"
abbreviation cr :: char where "cr \<equiv> CHR 0x0D"

definition code_point :: "char \<Rightarrow> nat" where
  "code_point c = of_char c"

text \<open>\<open>\d\<close>: the decimal digits; below U+0100 these are \<open>0\<close> to \<open>9\<close>.\<close>

definition is_digit :: "char \<Rightarrow> bool" where
  "is_digit c = (48 \<le> code_point c \<and> code_point c \<le> 57)"

text \<open>\<open>[a-zA-Z_]\<close>\<close>

definition is_ident_start :: "char \<Rightarrow> bool" where
  "is_ident_start c =
     ((97 \<le> code_point c \<and> code_point c \<le> 122) \<or>
      (65 \<le> code_point c \<and> code_point c \<le> 90) \<or> code_point c = 95)"

text \<open>
  \<open>\w\<close> on a Python \<open>str\<close>: the alphanumeric characters and the underscore. Below
  U+0100 the alphanumeric characters are the ASCII letters and digits, U+00AA, U+00B2,
  U+00B3, U+00B5, U+00B9, U+00BA, U+00BC to U+00BE, and U+00C0 to U+00FF without U+00D7
  and U+00F7.
\<close>

definition is_word :: "char \<Rightarrow> bool" where
  "is_word c =
     (let n = code_point c in
        (48 \<le> n \<and> n \<le> 57) \<or> (65 \<le> n \<and> n \<le> 90) \<or> n = 95 \<or> (97 \<le> n \<and> n \<le> 122) \<or>
        n = 170 \<or> n = 178 \<or> n = 179 \<or> n = 181 \<or> n = 185 \<or> n = 186 \<or>
        (188 \<le> n \<and> n \<le> 190) \<or> (192 \<le> n \<and> n \<le> 214) \<or> (216 \<le> n \<and> n \<le> 246) \<or>
        (248 \<le> n \<and> n \<le> 255))"

text \<open>\<open>[ \t]\<close>\<close>

definition is_blank :: "char \<Rightarrow> bool" where
  "is_blank c = (c = space \<or> c = tab)"

text \<open>
  A pattern is tried at a position of the text: it sees the character before the
  position (\<open>None\<close> at the start of the text) and the text from the position on, and
  gives the length of its match there, if it matches.
\<close>

type_synonym pattern = "char option \<Rightarrow> string \<Rightarrow> nat option"

fun first_char :: "string \<Rightarrow> char option" where
  "first_char [] = None"
| "first_char (c # cs) = Some c"

fun last_char :: "string \<Rightarrow> char option" where
  "last_char [] = None"
| "last_char [c] = Some c"
| "last_char (c # cs) = last_char cs"

fun is_word_at :: "char option \<Rightarrow> bool" where
  "is_word_at None = False"
| "is_word_at (Some c) = is_word c"

text \<open>
  \<open>\b\<close>: the position is between a \<open>\w\<close> character and one that is not, the two
  ends of the text counting as not.
\<close>

definition word_boundary :: "char option \<Rightarrow> char option \<Rightarrow> bool" where
  "word_boundary before after = (is_word_at before \<noteq> is_word_at after)"

text \<open>\<open>\bw\b\<close> for a keyword \<open>w\<close>\<close>

definition keyword :: "string \<Rightarrow> pattern" where
  "keyword w prev s =
     (if word_boundary prev (first_char s) \<and> take (length w) s = w \<and>
         word_boundary (last_char w) (first_char (drop (length w) s))
      then Some (length w) else None)"

text \<open>A literal text, such as \<open>\+\<close> or \<open>&&\<close>\<close>

definition literal :: "string \<Rightarrow> pattern" where
  "literal w prev s = (if take (length w) s = w then Some (length w) else None)"

text \<open>\<open>p|q|...\<close>: the first alternative that matches\<close>

fun alternatives :: "pattern list \<Rightarrow> pattern" where
  "alternatives [] prev s = None"
| "alternatives (p # ps) prev s =
     (case p prev s of Some n \<Rightarrow> Some n | None \<Rightarrow> alternatives ps prev s)"

text \<open>\<open>[...]+\<close>, greedy: the longest non-empty run of characters of the class\<close>

definition one_or_more :: "(char \<Rightarrow> bool) \<Rightarrow> pattern" where
  "one_or_more P prev s =
     (let n = length (takeWhile P s) in if n = 0 then None else Some n)"

text \<open>
  \<open>"[^"]*"\<close>: a double quote, the longest run of other characters, a double quote. A
  shorter run is followed by a character that is not a double quote, so backtracking
  finds no other match.
\<close>

definition string_constant :: pattern where
  "string_constant prev s =
     (case s of
        [] \<Rightarrow> None
      | c # r \<Rightarrow>
          if c = dquote then
            (let body = takeWhile (\<lambda>x. x \<noteq> dquote) r
             in if first_char (drop (length body) r) = Some dquote
                then Some (length body + 2) else None)
          else None)"

text \<open>\<open>[a-zA-Z_]\w*\<close>\<close>

definition ident :: pattern where
  "ident prev s =
     (case s of
        [] \<Rightarrow> None
      | c # r \<Rightarrow> if is_ident_start c then Some (1 + length (takeWhile is_word r)) else None)"

text \<open>\<open>.\<close>: any character but a newline\<close>

definition any_char :: pattern where
  "any_char prev s = (case s of [] \<Rightarrow> None | c # r \<Rightarrow> if c = newline then None else Some 1)"

text \<open>\<open>Lexer.token_specification\<close>, in the order of the source\<close>

definition token_specification :: "(string \<times> pattern) list" where
  "token_specification =
    [(''T_Void'', keyword ''void''),
     (''T_Int'', keyword ''int''),
     (''T_Bool'', keyword ''bool''),
     (''T_If'', keyword ''if''),
     (''T_For'', keyword ''for''),
     (''T_Return'', keyword ''return''),
     (''T_Print'', keyword ''Print''),
     (''T_LessEqual'', alternatives [literal ''<='', literal ''>='', literal ''=='', literal ''!='']),
     (''T_Assign'', literal ''=''),
     (''T_Less'', literal ''<''),
     (''T_Greater'', literal ''>''),
     (''T_Add'', literal ''+''),
     (''T_Sub'', literal ''-''),
     (''T_Mul'', literal ''*''),
     (''T_Div'', literal ''/''),
     (''T_Mod'', literal ''%''),
     (''T_And'', literal ''&&''),
     (''T_Or'', literal ''||''),
     (''T_Not'', literal ''!''),
     (''T_Semicolon'', literal '';''),
     (''T_Comma'', literal '',''),
     (''T_LParen'', literal ''(''),
     (''T_RParen'', literal '')''),
     (''T_LBrace'', literal ''{''),
     (''T_RBrace'', literal ''}''),
     (''T_IntConstant'', one_or_more is_digit),
     (''T_StringConstant'', string_constant),
     (''T_Identifier'', ident),
     (''WHITESPACE'', one_or_more is_blank),
     (''NEWLINE'', literal [newline]),
     (''MISMATCH'', any_char)]"

text \<open>
  \<open>Lexer.token_regex\<close>: the named groups joined by \<open>|\<close>. At a position the first group
  that matches wins; the result is its name (\<open>mo.lastgroup\<close>) and the length of the
  match.
\<close>

fun match_groups :: "(string \<times> pattern) list \<Rightarrow> char option \<Rightarrow> string \<Rightarrow> (string \<times> nat) option" where
  "match_groups [] prev s = None"
| "match_groups ((name, p) # groups) prev s =
     (case p prev s of Some n \<Rightarrow> Some (name, n) | None \<Rightarrow> match_groups groups prev s)"

definition token_regex :: "char option \<Rightarrow> string \<Rightarrow> (string \<times> nat) option" where
  "token_regex = match_groups token_specification"

section \<open>The scan\<close>

lemma keyword_Some:
  "keyword w prev s = Some n \<Longrightarrow> n = length w \<and> take n s = w"
  by (simp add: keyword_def split: if_splits)

lemma literal_Some:
  "literal w prev s = Some n \<Longrightarrow> n = length w \<and> take n s = w"
  by (simp add: literal_def split: if_splits)

lemma alternatives_Some:
  "alternatives ps prev s = Some n \<Longrightarrow> \<exists>p \<in> set ps. p prev s = Some n"
  by (induction ps) (auto split: option.splits)

lemma one_or_more_Some:
  "one_or_more P prev s = Some n \<Longrightarrow> 0 < n \<and> n = length (takeWhile P s)"
  by (auto simp: one_or_more_def Let_def split: if_splits)

lemma string_constant_Some:
  "string_constant prev s = Some n \<Longrightarrow>
     \<exists>r. s = dquote # r \<and> n = length (takeWhile (\<lambda>x. x \<noteq> dquote) r) + 2"
  by (auto simp: string_constant_def Let_def split: list.splits if_splits)

lemma ident_Some:
  "ident prev s = Some n \<Longrightarrow>
     \<exists>c r. s = c # r \<and> is_ident_start c \<and> n = 1 + length (takeWhile is_word r)"
  by (auto simp: ident_def split: list.splits if_splits)

lemma any_char_Some:
  "any_char prev s = Some n \<Longrightarrow> n = 1 \<and> (\<exists>c r. s = c # r \<and> c \<noteq> newline)"
  by (auto simp: any_char_def split: list.splits if_splits)

lemma match_groups_Some:
  "match_groups groups prev s = Some (kind, n) \<Longrightarrow>
     \<exists>p. (kind, p) \<in> set groups \<and> p prev s = Some n"
  by (induction groups) (auto split: option.splits)

lemma token_regex_positive:
  assumes "token_regex prev s = Some (kind, n)"
  shows "0 < n"
proof -
  obtain p where p: "(kind, p) \<in> set token_specification" "p prev s = Some n"
    using assms match_groups_Some unfolding token_regex_def by blast
  from p show ?thesis
    unfolding token_specification_def
    by (auto dest!: keyword_Some literal_Some alternatives_Some one_or_more_Some
          string_constant_Some ident_Some any_char_Some)
qed

text \<open>
  A match object of \<open>finditer\<close>: \<open>mo.lastgroup\<close>, \<open>mo.group(kind)\<close>, \<open>mo.start()\<close> and
  \<open>mo.end()\<close>.
\<close>

record match_object =
  lastgroup :: string
  group :: string
  mo_start :: nat
  mo_end :: nat

text \<open>
  \<open>token_regex.finditer(code)\<close>: the matches from left to right. The search tries the
  regular expression at the current offset; where nothing matches it moves one
  character on, and after a match it goes on from the end of the match. The arguments
  are the character before the offset, the offset, and the text from the offset on.
\<close>

function finditer :: "char option \<Rightarrow> nat \<Rightarrow> string \<Rightarrow> match_object list" where
  "finditer prev pos [] = []"
| "finditer prev pos (c # cs) =
     (case token_regex prev (c # cs) of
        None \<Rightarrow> finditer (Some c) (pos + 1) cs
      | Some (kind, n) \<Rightarrow>
          \<lparr>lastgroup = kind, group = take n (c # cs), mo_start = pos, mo_end = pos + n\<rparr>
          # finditer (last_char (take n (c # cs))) (pos + n) (drop n (c # cs)))"
  by pat_completeness auto
termination
  by (relation "measure (\<lambda>(prev, pos, s). length s)")
     (auto dest: token_regex_positive)

text \<open>\<open>Lexer.tokenize\<close>: the body of the \<open>for\<close> loop, over the remaining matches.\<close>

fun tokenize_loop :: "match_object list \<Rightarrow> token list \<Rightarrow> int \<Rightarrow> int \<Rightarrow> error + token list" where
  "tokenize_loop [] tokens line current_position = Inr tokens"
| "tokenize_loop (mo # mos) tokens line current_position =
     (let kind = lastgroup mo;
          value = group mo;
          start_col = int (mo_start mo) - current_position;
          end_col = int (mo_end mo) - current_position
      in if kind = ''NEWLINE'' then tokenize_loop mos tokens (line + 1) (int (mo_end mo))
         else if kind = ''WHITESPACE'' then tokenize_loop mos tokens line current_position
         else if kind = ''MISMATCH'' then Inl (RuntimeError value line)
         else tokenize_loop mos
                (tokens @ [\<lparr>tok_type = kind, tok_value = value, tok_line = line,
                            tok_start_col = start_col + 1, tok_end_col = end_col\<rparr>])
                line current_position)"

definition tokenize :: "string \<Rightarrow> error + token list" where
  "tokenize code = tokenize_loop (finditer None 0 code) [] 1 0"

section \<open>The parser\<close>

text \<open>
  \<open>Parser\<close> holds the tokens, which it never changes, and the cursor \<open>position\<close>. The
  model passes the position in and returns the new one.
\<close>

definition current_token :: "token list \<Rightarrow> nat \<Rightarrow> token option" where
  "current_token tokens position =
     (if position < length tokens then Some (tokens ! position) else None)"

definition consume :: "nat \<Rightarrow> nat" where
  "consume position = position + 1"

text \<open>What an f-string writes for a value that is a \<open>str\<close> or \<open>None\<close>\<close>

fun format :: "string option \<Rightarrow> string" where
  "format None = ''None''"
| "format (Some s) = s"

text \<open>\<open>str.lower()\<close> on the code points below U+0100\<close>

definition lower_char :: "char \<Rightarrow> char" where
  "lower_char c =
     (let n = code_point c in
      if (65 \<le> n \<and> n \<le> 90) \<or> (192 \<le> n \<and> n \<le> 222 \<and> n \<noteq> 215)
      then char_of (n + 32) else c)"

definition lower :: "string \<Rightarrow> string" where
  "lower s = map lower_char s"

text \<open>The texts of the f-strings of \<open>parse_expression\<close>\<close>

definition binary_text :: "string \<Rightarrow> string \<Rightarrow> string option \<Rightarrow> string option \<Rightarrow> string" where
  "binary_text label operator left right =
     label @ '': '' @ operator @ [newline] @ ''            '' @ format left
       @ [newline] @ ''            '' @ format right"

definition not_text :: "string option \<Rightarrow> string" where
  "not_text expr = ''LogicalExpr: !'' @ [newline] @ ''            '' @ format expr"

function parse_expression :: "token list \<Rightarrow> nat \<Rightarrow> error + (string option \<times> nat)" where
  "parse_expression tokens position =
     (case current_token tokens position of
        None \<Rightarrow> Inl AttributeError
      | Some token \<Rightarrow>
          if tok_type token \<in> set [''T_IntConstant'', ''T_Identifier''] then
            Inr (Some (''FieldAccess: '' @ tok_value token), consume position)
          else if tok_type token = ''T_Add'' \<or> tok_type token = ''T_Sub'' then
            (case parse_expression tokens (consume position) of
               Inl e \<Rightarrow> Inl e
             | Inr (left, p1) \<Rightarrow>
                 (case parse_expression tokens p1 of
                    Inl e \<Rightarrow> Inl e
                  | Inr (right, p2) \<Rightarrow>
                      Inr (Some (binary_text ''ArithmeticExpr'' (tok_value token) left right), p2)))
          else if tok_type token = ''T_And'' \<or> tok_type token = ''T_Or'' then
            (case parse_expression tokens (consume position) of
               Inl e \<Rightarrow> Inl e
             | Inr (left, p1) \<Rightarrow>
                 (case parse_expression tokens p1 of
                    Inl e \<Rightarrow> Inl e
                  | Inr (right, p2) \<Rightarrow>
                      Inr (Some (binary_text ''LogicalExpr'' (tok_value token) left right), p2)))
          else if tok_type token = ''T_LessEqual'' \<or> tok_type token = ''T_Equal'' then
            (case parse_expression tokens (consume position) of
               Inl e \<Rightarrow> Inl e
             | Inr (left, p1) \<Rightarrow>
                 (case parse_expression tokens p1 of
                    Inl e \<Rightarrow> Inl e
                  | Inr (right, p2) \<Rightarrow>
                      Inr (Some (binary_text ''RelationalExpr'' (tok_value token) left right), p2)))
          else if tok_type token = ''T_Not'' then
            (case parse_expression tokens (consume position) of
               Inl e \<Rightarrow> Inl e
             | Inr (expr, p1) \<Rightarrow> Inr (Some (not_text expr), p1))
          else Inr (None, position))"
  by pat_completeness auto

lemma parse_expression_advances:
  "parse_expression_dom (tokens, position) \<Longrightarrow>
   parse_expression tokens position = Inr (r, p) \<Longrightarrow> position \<le> p"
proof (induction tokens position arbitrary: r p rule: parse_expression.pinduct)
  case (1 tokens position)
  note IH = "1.IH"
  note eq = "1.prems" [unfolded parse_expression.psimps [OF "1.hyps"]]
  show ?case
  proof (cases "current_token tokens position")
    case None
    with eq show ?thesis by simp
  next
    case (Some token)
    have two: "position \<le> p"
      if c1: "parse_expression tokens (consume position) = Inr (a, p1)" "consume position \<le> p1"
        and c2: "parse_expression tokens p1 = Inr (b, p)" "p1 \<le> p" for a p1 b
      using that by (simp add: consume_def)
    consider (leaf) "tok_type token \<in> set [''T_IntConstant'', ''T_Identifier'']"
      | (arith) "tok_type token \<notin> set [''T_IntConstant'', ''T_Identifier'']"
          "tok_type token = ''T_Add'' \<or> tok_type token = ''T_Sub''"
      | (logic) "tok_type token \<notin> set [''T_IntConstant'', ''T_Identifier'']"
          "\<not> (tok_type token = ''T_Add'' \<or> tok_type token = ''T_Sub'')"
          "tok_type token = ''T_And'' \<or> tok_type token = ''T_Or''"
      | (rel) "tok_type token \<notin> set [''T_IntConstant'', ''T_Identifier'']"
          "\<not> (tok_type token = ''T_Add'' \<or> tok_type token = ''T_Sub'')"
          "\<not> (tok_type token = ''T_And'' \<or> tok_type token = ''T_Or'')"
          "tok_type token = ''T_LessEqual'' \<or> tok_type token = ''T_Equal''"
      | (neg) "tok_type token \<notin> set [''T_IntConstant'', ''T_Identifier'']"
          "\<not> (tok_type token = ''T_Add'' \<or> tok_type token = ''T_Sub'')"
          "\<not> (tok_type token = ''T_And'' \<or> tok_type token = ''T_Or'')"
          "\<not> (tok_type token = ''T_LessEqual'' \<or> tok_type token = ''T_Equal'')"
          "tok_type token = ''T_Not''"
      | (other) "tok_type token \<notin> set [''T_IntConstant'', ''T_Identifier'']"
          "\<not> (tok_type token = ''T_Add'' \<or> tok_type token = ''T_Sub'')"
          "\<not> (tok_type token = ''T_And'' \<or> tok_type token = ''T_Or'')"
          "\<not> (tok_type token = ''T_LessEqual'' \<or> tok_type token = ''T_Equal'')"
          "tok_type token \<noteq> ''T_Not''"
      by blast
    then show ?thesis
    proof cases
      case leaf
      with eq Some show ?thesis by (simp add: consume_def)
    next
      case arith
      from eq Some arith obtain a p1 b where
        c: "parse_expression tokens (consume position) = Inr (a, p1)"
           "parse_expression tokens p1 = Inr (b, p)"
        by (simp split: sum.splits prod.splits)
      show ?thesis
        using two [OF c(1) IH(1) [OF Some arith c(1)] c(2) IH(2) [OF Some arith c(1) refl c(2)]] .
    next
      case logic
      from eq Some logic obtain a p1 b where
        c: "parse_expression tokens (consume position) = Inr (a, p1)"
           "parse_expression tokens p1 = Inr (b, p)"
        by (simp split: sum.splits prod.splits)
      show ?thesis
        using two [OF c(1) IH(3) [OF Some logic c(1)] c(2) IH(4) [OF Some logic c(1) refl c(2)]] .
    next
      case rel
      from eq Some rel obtain a p1 b where
        c: "parse_expression tokens (consume position) = Inr (a, p1)"
           "parse_expression tokens p1 = Inr (b, p)"
        by (simp split: sum.splits prod.splits)
      show ?thesis
        using two [OF c(1) IH(5) [OF Some rel c(1)] c(2) IH(6) [OF Some rel c(1) refl c(2)]] .
    next
      case neg
      from eq Some neg obtain a where
        c: "parse_expression tokens (consume position) = Inr (a, p)"
        by (simp split: sum.splits prod.splits)
      from IH(7) [OF Some neg c] show ?thesis by (simp add: consume_def)
    next
      case other
      with eq Some show ?thesis by simp
    qed
  qed
qed

termination parse_expression
  apply (relation "measure (\<lambda>(tokens, position). length tokens - position)")
  apply (auto simp: consume_def current_token_def split: if_splits dest!: parse_expression_advances)
  done

declare parse_expression.simps [simp del]

text \<open>The texts of the other f-strings\<close>

definition declaration_text :: "string \<Rightarrow> string" where
  "declaration_text name = [newline] @ ''    Declaration: '' @ name"

definition function_text :: "string \<Rightarrow> string" where
  "function_text name = [newline] @ ''    Function: '' @ name"

definition parameter_text :: "string \<Rightarrow> string \<Rightarrow> string" where
  "parameter_text type parameter_name =
     [newline] @ ''        Parameter: t_'' @ lower type @ '' '' @ parameter_name"

definition if_else_text :: "string option \<Rightarrow> string \<Rightarrow> string \<Rightarrow> string" where
  "if_else_text condition block else_block =
     [newline] @ ''        IfElse:'' @ [newline] @ ''            '' @ format condition
       @ [newline] @ ''            Block:'' @ [newline] @ block
       @ [newline] @ ''            Block:'' @ [newline] @ else_block"

definition return_text :: "string option \<Rightarrow> string" where
  "return_text expression =
     [newline] @ ''        Return:'' @ [newline] @ ''            '' @ format expression"

definition print_text :: "string option \<Rightarrow> string" where
  "print_text expression =
     [newline] @ ''        Print:'' @ [newline] @ ''            '' @ format expression"

definition assign_text :: "string option \<Rightarrow> string option \<Rightarrow> string" where
  "assign_text left right =
     [newline] @ ''        ExpressionStatement:'' @ [newline] @ ''            AssignExpr: =''
       @ [newline] @ ''                '' @ format left
       @ [newline] @ ''                '' @ format right"

definition parse_return :: "token list \<Rightarrow> nat \<Rightarrow> error + (string \<times> nat)" where
  "parse_return tokens position =
     (case parse_expression tokens (consume position) of
        Inl e \<Rightarrow> Inl e
      | Inr (expression, p) \<Rightarrow> Inr (return_text expression, p))"

definition parse_print :: "token list \<Rightarrow> nat \<Rightarrow> error + (string \<times> nat)" where
  "parse_print tokens position =
     (case parse_expression tokens (consume position) of
        Inl e \<Rightarrow> Inl e
      | Inr (expression, p) \<Rightarrow> Inr (print_text expression, p))"

text \<open>\<open>parse_expression_statement\<close> returns \<open>left\<close>, which may be \<open>None\<close>.\<close>

definition parse_expression_statement :: "token list \<Rightarrow> nat \<Rightarrow> error + (string option \<times> nat)" where
  "parse_expression_statement tokens position =
     (case parse_expression tokens position of
        Inl e \<Rightarrow> Inl e
      | Inr (left, p1) \<Rightarrow>
          (case current_token tokens p1 of
             None \<Rightarrow> Inl AttributeError
           | Some token \<Rightarrow>
               if tok_type token = ''T_Assign'' then
                 (case parse_expression tokens (consume p1) of
                    Inl e \<Rightarrow> Inl e
                  | Inr (right, p2) \<Rightarrow> Inr (Some (assign_text left right), p2))
               else Inr (left, p1)))"

text \<open>
  The loops of \<open>parse_function\<close>, \<open>parse_block\<close> and \<open>parse\<close> and the calls between
  \<open>parse_declaration_or_function\<close>, \<open>parse_function\<close>, \<open>parse_block\<close> and
  \<open>parse_if_else\<close> need not end. These functions take fuel, one unit for each call and
  each loop iteration, and give \<open>None\<close> when it runs out; \<open>Some (Inl e)\<close> is the
  exception \<open>e\<close>, \<open>Some (Inr (x, p))\<close> the result \<open>x\<close> with the cursor at \<open>p\<close>.

  The \<open>while\<close> loop of \<open>parse_function\<close>: an iteration whose token is neither
  \<open>T_Int\<close> nor \<open>T_Bool\<close> changes nothing.
\<close>

fun parse_function_loop :: "nat \<Rightarrow> token list \<Rightarrow> string \<Rightarrow> nat \<Rightarrow> (error + (string \<times> nat)) option" where
  "parse_function_loop 0 tokens function position = None"
| "parse_function_loop (Suc n) tokens function position =
     (case current_token tokens position of
        None \<Rightarrow> Some (Inr (function, position))
      | Some token \<Rightarrow>
          if tok_type token = ''T_RParen'' then Some (Inr (function, position))
          else if tok_type token \<in> set [''T_Int'', ''T_Bool''] then
            (case current_token tokens (consume position) of
               None \<Rightarrow> Some (Inl AttributeError)
             | Some name_token \<Rightarrow>
                 (let parameter_name = tok_value name_token;
                      p2 = consume (consume position);
                      function' = function @ parameter_text (tok_type token) parameter_name
                  in case current_token tokens p2 of
                       None \<Rightarrow> Some (Inl AttributeError)
                     | Some t \<Rightarrow>
                         if tok_type t = ''T_Comma''
                         then parse_function_loop n tokens function' (consume p2)
                         else parse_function_loop n tokens function' p2))
          else parse_function_loop n tokens function position)"

text \<open>
  In the loop of \<open>parse_block\<close> a token that starts no statement appends nothing: the
  empty statement text. A production that returned \<open>None\<close> makes \<open>block += None\<close> raise.
\<close>

function (sequential) parse_declaration_or_function :: "nat \<Rightarrow> token list \<Rightarrow> nat \<Rightarrow> (error + (string option \<times> nat)) option"
  and parse_function :: "nat \<Rightarrow> token list \<Rightarrow> string \<Rightarrow> nat \<Rightarrow> (error + (string \<times> nat)) option"
  and parse_block :: "nat \<Rightarrow> token list \<Rightarrow> nat \<Rightarrow> (error + (string \<times> nat)) option"
  and parse_block_loop :: "nat \<Rightarrow> token list \<Rightarrow> string \<Rightarrow> nat \<Rightarrow> (error + (string \<times> nat)) option"
  and parse_if_else :: "nat \<Rightarrow> token list \<Rightarrow> nat \<Rightarrow> (error + (string \<times> nat)) option"
where
  "parse_declaration_or_function 0 tokens position = None"
| "parse_declaration_or_function (Suc n) tokens position =
     (case current_token tokens position of
        None \<Rightarrow> Some (Inl AttributeError)
      | Some token \<Rightarrow>
          if tok_type token \<in> set [''T_Int'', ''T_Void''] then
            (let identifier = current_token tokens (consume position);
                 p2 = consume (consume position)
             in case current_token tokens p2 of
                  None \<Rightarrow> Some (Inl AttributeError)
                | Some token \<Rightarrow>
                    if tok_type token = ''T_LParen'' then
                      (case identifier of
                         None \<Rightarrow> Some (Inl AttributeError)
                       | Some ident_token \<Rightarrow>
                           (case parse_function n tokens (tok_value ident_token) p2 of
                              None \<Rightarrow> None
                            | Some (Inl e) \<Rightarrow> Some (Inl e)
                            | Some (Inr (function, p)) \<Rightarrow> Some (Inr (Some function, p))))
                    else if tok_type token = ''T_Semicolon'' then
                      (case identifier of
                         None \<Rightarrow> Some (Inl AttributeError)
                       | Some ident_token \<Rightarrow>
                           Some (Inr (Some (declaration_text (tok_value ident_token)), consume p2)))
                    else Some (Inr (None, p2)))
          else Some (Inr (None, position)))"
| "parse_function 0 tokens name position = None"
| "parse_function (Suc n) tokens name position =
     (case parse_function_loop n tokens (function_text name) (consume position) of
        None \<Rightarrow> None
      | Some (Inl e) \<Rightarrow> Some (Inl e)
      | Some (Inr (function, p)) \<Rightarrow>
          (case current_token tokens (consume p) of
             None \<Rightarrow> Some (Inr (function, consume p))
           | Some token \<Rightarrow>
               if tok_type token = ''T_LBrace'' then
                 (case parse_block n tokens (consume p) of
                    None \<Rightarrow> None
                  | Some (Inl e) \<Rightarrow> Some (Inl e)
                  | Some (Inr (block, p')) \<Rightarrow> Some (Inr (function @ block, p')))
               else Some (Inr (function, consume p))))"
| "parse_block 0 tokens position = None"
| "parse_block (Suc n) tokens position =
     (case parse_block_loop n tokens [] (consume position) of
        None \<Rightarrow> None
      | Some (Inl e) \<Rightarrow> Some (Inl e)
      | Some (Inr (block, p)) \<Rightarrow> Some (Inr (block, consume p)))"
| "parse_block_loop 0 tokens block position = None"
| "parse_block_loop (Suc n) tokens block position =
     (case current_token tokens position of
        None \<Rightarrow> Some (Inr (block, position))
      | Some token \<Rightarrow>
          if tok_type token = ''T_RBrace'' then Some (Inr (block, position))
          else
            (case
               (if tok_type token \<in> set [''T_Int'', ''T_Void''] then
                  parse_declaration_or_function n tokens position
                else if tok_type token = ''T_If'' then
                  map_option (map_sum id (map_prod Some id)) (parse_if_else n tokens position)
                else if tok_type token = ''T_Return'' then
                  Some (map_sum id (map_prod Some id) (parse_return tokens position))
                else if tok_type token = ''T_Print'' then
                  Some (map_sum id (map_prod Some id) (parse_print tokens position))
                else if tok_type token = ''T_Identifier'' then
                  Some (parse_expression_statement tokens position)
                else Some (Inr (Some [], position)))
             of
               None \<Rightarrow> None
             | Some (Inl e) \<Rightarrow> Some (Inl e)
             | Some (Inr (None, p)) \<Rightarrow> Some (Inl TypeError)
             | Some (Inr (Some statement, p)) \<Rightarrow>
                 parse_block_loop n tokens (block @ statement) (consume p)))"
| "parse_if_else 0 tokens position = None"
| "parse_if_else (Suc n) tokens position =
     (case parse_expression tokens (consume position) of
        Inl e \<Rightarrow> Some (Inl e)
      | Inr (condition, p1) \<Rightarrow>
          (case parse_block n tokens p1 of
             None \<Rightarrow> None
           | Some (Inl e) \<Rightarrow> Some (Inl e)
           | Some (Inr (block, p2)) \<Rightarrow>
               (case current_token tokens p2 of
                  None \<Rightarrow> Some (Inr (if_else_text condition block [], p2))
                | Some token \<Rightarrow>
                    if tok_type token = ''T_Else'' then
                      (case parse_block n tokens (consume p2) of
                         None \<Rightarrow> None
                       | Some (Inl e) \<Rightarrow> Some (Inl e)
                       | Some (Inr (else_block, p3)) \<Rightarrow>
                           Some (Inr (if_else_text condition block else_block, p3)))
                    else Some (Inr (if_else_text condition block [], p2)))))"
  by pat_completeness auto
termination
  by (relation "measure (\<lambda>x. case x of
         Inl (Inl (n, _)) \<Rightarrow> n
       | Inl (Inr (n, _)) \<Rightarrow> n
       | Inr (Inl (n, _)) \<Rightarrow> n
       | Inr (Inr (Inl (n, _))) \<Rightarrow> n
       | Inr (Inr (Inr (n, _))) \<Rightarrow> n)")
     (simp_all (no_asm))

text \<open>\<open>Parser.parse\<close>: the \<open>while\<close> loop, and the call from position 0\<close>

fun parse_loop :: "nat \<Rightarrow> token list \<Rightarrow> string \<Rightarrow> nat \<Rightarrow> (error + string) option" where
  "parse_loop 0 tokens program position = None"
| "parse_loop (Suc n) tokens program position =
     (case current_token tokens position of
        None \<Rightarrow> Some (Inr program)
      | Some token \<Rightarrow>
          if tok_type token \<in> set [''T_Int'', ''T_Void''] then
            (case parse_declaration_or_function n tokens position of
               None \<Rightarrow> None
             | Some (Inl e) \<Rightarrow> Some (Inl e)
             | Some (Inr (None, p)) \<Rightarrow> Some (Inl TypeError)
             | Some (Inr (Some text, p)) \<Rightarrow> parse_loop n tokens (program @ text) p)
          else parse_loop n tokens program (consume position))"

definition parse :: "nat \<Rightarrow> token list \<Rightarrow> (error + string) option" where
  "parse n tokens = parse_loop n tokens ''Program:'' 0"

section \<open>More fuel changes no result\<close>

lemma parse_function_loop_mono:
  "parse_function_loop n tokens f p = Some r \<Longrightarrow> parse_function_loop (n + k) tokens f p = Some r"
proof (induction n arbitrary: f p r)
  case 0
  then show ?case by simp
next
  case (Suc n)
  from Suc.prems show ?case
    by (auto split: option.splits if_splits simp: Let_def intro: Suc.IH)
qed

lemma parse_block_loop_step:
  assumes IH1: "\<And>p r. parse_declaration_or_function n tokens p = Some r \<Longrightarrow>
       parse_declaration_or_function m tokens p = Some r"
    and IH4: "\<And>b p r. parse_block_loop n tokens b p = Some r \<Longrightarrow>
       parse_block_loop m tokens b p = Some r"
    and IH5: "\<And>p r. parse_if_else n tokens p = Some r \<Longrightarrow>
       parse_if_else m tokens p = Some r"
    and h: "parse_block_loop (Suc n) tokens b p = Some r"
  shows "parse_block_loop (Suc m) tokens b p = Some r"
proof (cases "current_token tokens p")
  case None
  with h show ?thesis by simp
next
  case (Some token)
  show ?thesis
  proof (cases "tok_type token = ''T_RBrace''")
    case True
    with h Some show ?thesis by simp
  next
    case False
    define stmt where "stmt k =
       (if tok_type token \<in> set [''T_Int'', ''T_Void''] then
          parse_declaration_or_function k tokens p
        else if tok_type token = ''T_If'' then
          map_option (map_sum id (map_prod Some id)) (parse_if_else k tokens p)
        else if tok_type token = ''T_Return'' then
          Some (map_sum id (map_prod Some id) (parse_return tokens p))
        else if tok_type token = ''T_Print'' then
          Some (map_sum id (map_prod Some id) (parse_print tokens p))
        else if tok_type token = ''T_Identifier'' then
          Some (parse_expression_statement tokens p)
        else Some (Inr (Some [], p)))" for k
    have unfold: "parse_block_loop (Suc k) tokens b p =
        (case stmt k of
           None \<Rightarrow> None
         | Some (Inl e) \<Rightarrow> Some (Inl e)
         | Some (Inr (None, q)) \<Rightarrow> Some (Inl TypeError)
         | Some (Inr (Some statement, q)) \<Rightarrow>
             parse_block_loop k tokens (b @ statement) (consume q))" for k
      unfolding stmt_def parse_block_loop.simps Some option.case using False by (simp only: if_False)
    have st: "stmt m = Some x" if "stmt n = Some x" for x
      using that unfolding stmt_def
      by (auto split: if_splits simp: IH1 IH5)
    from h obtain x where x: "stmt n = Some x"
      unfolding unfold by (cases "stmt n") simp_all
    show ?thesis
      using h unfolding unfold x st [OF x]
      by (auto split: sum.splits option.splits prod.splits intro: IH4)
  qed
qed

lemma fuel_mono_all:
  "(\<forall>p r. parse_declaration_or_function n tokens p = Some r \<longrightarrow>
       parse_declaration_or_function (n + k) tokens p = Some r) \<and>
   (\<forall>name p r. parse_function n tokens name p = Some r \<longrightarrow>
       parse_function (n + k) tokens name p = Some r) \<and>
   (\<forall>p r. parse_block n tokens p = Some r \<longrightarrow>
       parse_block (n + k) tokens p = Some r) \<and>
   (\<forall>b p r. parse_block_loop n tokens b p = Some r \<longrightarrow>
       parse_block_loop (n + k) tokens b p = Some r) \<and>
   (\<forall>p r. parse_if_else n tokens p = Some r \<longrightarrow>
       parse_if_else (n + k) tokens p = Some r)"
proof (induction n)
  case 0
  show ?case by simp
next
  case (Suc n)
  then have
    IH1: "\<And>p r. parse_declaration_or_function n tokens p = Some r \<Longrightarrow>
       parse_declaration_or_function (n + k) tokens p = Some r" and
    IH2: "\<And>name p r. parse_function n tokens name p = Some r \<Longrightarrow>
       parse_function (n + k) tokens name p = Some r" and
    IH3: "\<And>p r. parse_block n tokens p = Some r \<Longrightarrow>
       parse_block (n + k) tokens p = Some r" and
    IH4: "\<And>b p r. parse_block_loop n tokens b p = Some r \<Longrightarrow>
       parse_block_loop (n + k) tokens b p = Some r" and
    IH5: "\<And>p r. parse_if_else n tokens p = Some r \<Longrightarrow>
       parse_if_else (n + k) tokens p = Some r"
    by blast+
  have 1: "parse_declaration_or_function (Suc (n + k)) tokens p = Some r"
    if "parse_declaration_or_function (Suc n) tokens p = Some r" for p r
    using that
    by (auto split: option.splits if_splits sum.splits prod.splits simp: Let_def IH2)
  have 2: "parse_function (Suc (n + k)) tokens name p = Some r"
    if "parse_function (Suc n) tokens name p = Some r" for name p r
    using that
    by (auto split: option.splits if_splits sum.splits prod.splits
        simp: Let_def IH3 parse_function_loop_mono)
  have 3: "parse_block (Suc (n + k)) tokens p = Some r"
    if "parse_block (Suc n) tokens p = Some r" for p r
    using that
    by (auto split: option.splits if_splits sum.splits prod.splits simp: Let_def IH4)
  have 4: "parse_block_loop (Suc (n + k)) tokens b p = Some r"
    if "parse_block_loop (Suc n) tokens b p = Some r" for b p r
    using IH1 IH4 IH5 that by (rule parse_block_loop_step)
  have 5: "parse_if_else (Suc (n + k)) tokens p = Some r"
    if "parse_if_else (Suc n) tokens p = Some r" for p r
    using that
    by (auto split: option.splits if_splits sum.splits prod.splits simp: Let_def IH3)
  from 1 2 3 4 5 show ?case by simp
qed

lemma parse_loop_mono:
  "parse_loop n tokens program p = Some r \<Longrightarrow> parse_loop (n + k) tokens program p = Some r"
proof (induction n arbitrary: program p r)
  case 0
  then show ?case by simp
next
  case (Suc n)
  have pdf: "parse_declaration_or_function (n + k) tokens q = Some x"
    if "parse_declaration_or_function n tokens q = Some x" for q x
    using that fuel_mono_all [of n tokens k] by blast
  from Suc.prems show ?case
    by (auto split: option.splits if_splits sum.splits prod.splits simp: pdf intro: Suc.IH)
qed

lemma parse_mono: "parse n tokens = Some r \<Longrightarrow> parse (n + k) tokens = Some r"
  unfolding parse_def by (rule parse_loop_mono)

section \<open>The scanner on examples\<close>

text \<open>
  C4. Tokenizing the two-character text \<open><=\<close> gives exactly one token, of type
  \<open>T_LessEqual\<close> with the text \<open><=\<close>, on line 1 in columns 1 to 2; it is not split
  into a \<open><\<close> token and a \<open>=\<close> token.
\<close>

theorem tokenize_less_equal:
  "tokenize ''<='' =
     Inr [\<lparr>tok_type = ''T_LessEqual'', tok_value = ''<='', tok_line = 1,
           tok_start_col = 1, tok_end_col = 2\<rparr>]"
  by code_simp

section \<open>The parser on examples\<close>

text \<open>
  C5. The tokens \<open>+\<close>, \<open>a\<close>, \<open>1\<close>, in this order and wherever they stand in the
  source, parse as an expression to the text of an \<open>ArithmeticExpr\<close> for \<open>+\<close> whose
  first line below is \<open>FieldAccess: a\<close> and whose second is \<open>FieldAccess: 1\<close>; the
  cursor ends behind the three tokens.
\<close>

theorem parse_expression_prefix_add:
  "parse_expression
     [\<lparr>tok_type = ''T_Add'', tok_value = ''+'', tok_line = l1,
        tok_start_col = s1, tok_end_col = e1\<rparr>,
      \<lparr>tok_type = ''T_Identifier'', tok_value = ''a'', tok_line = l2,
        tok_start_col = s2, tok_end_col = e2\<rparr>,
      \<lparr>tok_type = ''T_IntConstant'', tok_value = ''1'', tok_line = l3,
        tok_start_col = s3, tok_end_col = e3\<rparr>] 0 =
   Inr (Some (''ArithmeticExpr: +'' @ [newline] @ ''            FieldAccess: a''
                @ [newline] @ ''            FieldAccess: 1''), 3)"
  by (simp add: parse_expression.simps current_token_def consume_def binary_text_def)

definition function_example_tokens :: "token list" where
  "function_example_tokens =
    [\<lparr>tok_type = ''T_Void'', tok_value = ''void'', tok_line = 1, tok_start_col = 1, tok_end_col = 4\<rparr>,
     \<lparr>tok_type = ''T_Identifier'', tok_value = ''f'', tok_line = 1, tok_start_col = 6, tok_end_col = 6\<rparr>,
     \<lparr>tok_type = ''T_LParen'', tok_value = ''('', tok_line = 1, tok_start_col = 7, tok_end_col = 7\<rparr>,
     \<lparr>tok_type = ''T_Int'', tok_value = ''int'', tok_line = 1, tok_start_col = 8, tok_end_col = 10\<rparr>,
     \<lparr>tok_type = ''T_Identifier'', tok_value = ''a'', tok_line = 1, tok_start_col = 12, tok_end_col = 12\<rparr>,
     \<lparr>tok_type = ''T_Comma'', tok_value = '','', tok_line = 1, tok_start_col = 13, tok_end_col = 13\<rparr>,
     \<lparr>tok_type = ''T_Bool'', tok_value = ''bool'', tok_line = 1, tok_start_col = 15, tok_end_col = 18\<rparr>,
     \<lparr>tok_type = ''T_Identifier'', tok_value = ''b'', tok_line = 1, tok_start_col = 20, tok_end_col = 20\<rparr>,
     \<lparr>tok_type = ''T_RParen'', tok_value = '')'', tok_line = 1, tok_start_col = 21, tok_end_col = 21\<rparr>,
     \<lparr>tok_type = ''T_LBrace'', tok_value = ''{'', tok_line = 1, tok_start_col = 23, tok_end_col = 23\<rparr>,
     \<lparr>tok_type = ''T_Return'', tok_value = ''return'', tok_line = 1, tok_start_col = 25, tok_end_col = 30\<rparr>,
     \<lparr>tok_type = ''T_Identifier'', tok_value = ''a'', tok_line = 1, tok_start_col = 32, tok_end_col = 32\<rparr>,
     \<lparr>tok_type = ''T_Semicolon'', tok_value = '';'', tok_line = 1, tok_start_col = 33, tok_end_col = 33\<rparr>,
     \<lparr>tok_type = ''T_RBrace'', tok_value = ''}'', tok_line = 1, tok_start_col = 35, tok_end_col = 35\<rparr>]"

lemma tokenize_function_example:
  "tokenize ''void f(int a, bool b) { return a; }'' = Inr function_example_tokens"
  by code_simp

lemma parse_function_example_10:
  "parse 10 function_example_tokens =
     Some (Inr (''Program:'' @ [newline] @ ''    Function: f''
        @ [newline] @ ''        Parameter: t_t_int a''
        @ [newline] @ ''        Parameter: t_t_bool b''
        @ [newline] @ ''        Return:''
        @ [newline] @ ''            FieldAccess: a''))"
  by code_simp

theorem parse_function_example:
  "tokenize ''void f(int a, bool b) { return a; }'' = Inr function_example_tokens \<and>
   parse (10 + n) function_example_tokens =
     Some (Inr (''Program:'' @ [newline] @ ''    Function: f''
        @ [newline] @ ''        Parameter: t_t_int a''
        @ [newline] @ ''        Parameter: t_t_bool b''
        @ [newline] @ ''        Return:''
        @ [newline] @ ''            FieldAccess: a''))"
  using tokenize_function_example parse_mono [OF parse_function_example_10, of n] by simp

section \<open>Expressions that are absent\<close>

definition return_example_tokens :: "token list" where
  "return_example_tokens =
    [\<lparr>tok_type = ''T_Void'', tok_value = ''void'', tok_line = 1, tok_start_col = 1, tok_end_col = 4\<rparr>,
     \<lparr>tok_type = ''T_Identifier'', tok_value = ''f'', tok_line = 1, tok_start_col = 6, tok_end_col = 6\<rparr>,
     \<lparr>tok_type = ''T_LParen'', tok_value = ''('', tok_line = 1, tok_start_col = 7, tok_end_col = 7\<rparr>,
     \<lparr>tok_type = ''T_RParen'', tok_value = '')'', tok_line = 1, tok_start_col = 8, tok_end_col = 8\<rparr>,
     \<lparr>tok_type = ''T_LBrace'', tok_value = ''{'', tok_line = 1, tok_start_col = 9, tok_end_col = 9\<rparr>,
     \<lparr>tok_type = ''T_Return'', tok_value = ''return'', tok_line = 1, tok_start_col = 10, tok_end_col = 15\<rparr>,
     \<lparr>tok_type = ''T_Semicolon'', tok_value = '';'', tok_line = 1, tok_start_col = 16, tok_end_col = 16\<rparr>,
     \<lparr>tok_type = ''T_RBrace'', tok_value = ''}'', tok_line = 1, tok_start_col = 17, tok_end_col = 17\<rparr>]"

lemma tokenize_return_example:
  "tokenize ''void f(){return;}'' = Inr return_example_tokens"
  by code_simp

lemma parse_return_example_6:
  "parse 6 return_example_tokens =
     Some (Inr (''Program:'' @ [newline] @ ''    Function: f''
        @ [newline] @ ''        Return:''
        @ [newline] @ ''            None''))"
  by code_simp

lemma parse_expression_no_case:
  assumes "current_token tokens p = Some t"
    and "tok_type t \<notin> set [''T_IntConstant'', ''T_Identifier'', ''T_Add'', ''T_Sub'', ''T_And'',
           ''T_Or'', ''T_LessEqual'', ''T_Equal'', ''T_Not'']"
  shows "parse_expression tokens p = Inr (None, p)"
  using assms by (subst parse_expression.simps) simp

text \<open>
  C10. When the current token is of none of the types that \<open>parse_expression\<close> has a
  case for, \<open>parse_expression\<close> returns \<open>None\<close> and leaves the cursor where it was.
  \<open>parse_return\<close> and \<open>parse_print\<close>, called with such a token behind the keyword,
  then return a text whose expression line is \<open>None\<close>, with the cursor behind the
  keyword only. The source \<open>void f(){return;}\<close> tokenizes and parses, with any fuel from
  6 on, to a program whose \<open>Return\<close> has the line \<open>None\<close> below it.
\<close>

theorem parse_expression_absent:
  "(current_token tokens p = Some t \<and>
    tok_type t \<notin> set [''T_IntConstant'', ''T_Identifier'', ''T_Add'', ''T_Sub'', ''T_And'',
           ''T_Or'', ''T_LessEqual'', ''T_Equal'', ''T_Not''] \<longrightarrow>
      parse_expression tokens p = Inr (None, p)) \<and>
   (current_token tokens (consume q) = Some t \<and>
    tok_type t \<notin> set [''T_IntConstant'', ''T_Identifier'', ''T_Add'', ''T_Sub'', ''T_And'',
           ''T_Or'', ''T_LessEqual'', ''T_Equal'', ''T_Not''] \<longrightarrow>
      parse_return tokens q =
        Inr ([newline] @ ''        Return:'' @ [newline] @ ''            None'', consume q) \<and>
      parse_print tokens q =
        Inr ([newline] @ ''        Print:'' @ [newline] @ ''            None'', consume q)) \<and>
   tokenize ''void f(){return;}'' = Inr return_example_tokens \<and>
   parse (6 + n) return_example_tokens =
     Some (Inr (''Program:'' @ [newline] @ ''    Function: f''
        @ [newline] @ ''        Return:''
        @ [newline] @ ''            None''))"
  using tokenize_return_example parse_mono [OF parse_return_example_6, of n]
  by (auto simp: parse_return_def parse_print_def return_text_def print_text_def
      parse_expression_no_case)

theorem parse_expression_absent_witness:
  "current_token return_example_tokens 6 =
     Some \<lparr>tok_type = ''T_Semicolon'', tok_value = '';'', tok_line = 1,
            tok_start_col = 16, tok_end_col = 16\<rparr> \<and>
   ''T_Semicolon'' \<notin> set [''T_IntConstant'', ''T_Identifier'', ''T_Add'', ''T_Sub'', ''T_And'',
           ''T_Or'', ''T_LessEqual'', ''T_Equal'', ''T_Not''] \<and>
   parse_expression return_example_tokens 6 = Inr (None, 6) \<and>
   parse_return return_example_tokens 5 =
     Inr ([newline] @ ''        Return:'' @ [newline] @ ''            None'', 6)"
  using parse_expression_absent [of return_example_tokens 6
      "\<lparr>tok_type = ''T_Semicolon'', tok_value = '';'', tok_line = 1,
            tok_start_col = 16, tok_end_col = 16\<rparr>" 5 0]
  by (simp add: return_example_tokens_def current_token_def consume_def)

section \<open>Inputs on which the code fails\<close>

definition initializer_example_tokens :: "token list" where
  "initializer_example_tokens =
    [\<lparr>tok_type = ''T_Int'', tok_value = ''int'', tok_line = 1, tok_start_col = 1, tok_end_col = 3\<rparr>,
     \<lparr>tok_type = ''T_Identifier'', tok_value = ''x'', tok_line = 1, tok_start_col = 5, tok_end_col = 5\<rparr>,
     \<lparr>tok_type = ''T_Assign'', tok_value = ''='', tok_line = 1, tok_start_col = 7, tok_end_col = 7\<rparr>,
     \<lparr>tok_type = ''T_IntConstant'', tok_value = ''5'', tok_line = 1, tok_start_col = 9, tok_end_col = 9\<rparr>,
     \<lparr>tok_type = ''T_Semicolon'', tok_value = '';'', tok_line = 1, tok_start_col = 10, tok_end_col = 10\<rparr>]"

lemma tokenize_initializer_example:
  "tokenize ''int x = 5;'' = Inr initializer_example_tokens"
  by code_simp

lemma parse_initializer_example_2:
  "parse 2 initializer_example_tokens = Some (Inl TypeError)"
  by code_simp

text \<open>
  C1, on the tokens of \<open>int x = 5;\<close>: \<open>int\<close> and \<open>x\<close> are followed by \<open>=\<close>, neither
  \<open>(\<close> nor \<open>;\<close>. \<open>parse_declaration_or_function\<close> returns \<open>None\<close>, and
  \<open>program += None\<close> in \<open>parse\<close> raises \<open>TypeError\<close>, with any fuel from 2 on: the
  parse loop does not go on.
\<close>

theorem parse_initializer_raises:
  "tokenize ''int x = 5;'' = Inr initializer_example_tokens \<and>
   parse_declaration_or_function (1 + n) initializer_example_tokens 0 = Some (Inr (None, 2)) \<and>
   parse (2 + n) initializer_example_tokens = Some (Inl TypeError)"
  using tokenize_initializer_example parse_mono [OF parse_initializer_example_2, of n]
  by (simp add: initializer_example_tokens_def current_token_def consume_def)

text \<open>
  C3, on the text of a string literal that holds a newline, followed by \<open>@\<close>: one
  newline stands before the \<open>@\<close>, which is on line 2, and the error carries line 1.
\<close>

theorem tokenize_mismatch_after_multiline_string:
  "tokenize ([dquote, newline, dquote] @ ''@'') = Inl (RuntimeError ''@'' 1) \<and>
   count_list [dquote, newline, dquote] newline = 1"
  by code_simp

text \<open>
  C7, on the text of a string literal that holds a newline, followed by a space and
  \<open>x\<close>: one newline stands before \<open>x\<close>, the second character of line 2, and its token
  has line 1 and column 5.
\<close>

theorem tokenize_after_multiline_string:
  "tokenize ([dquote, newline, dquote] @ '' x'') =
     Inr [\<lparr>tok_type = ''T_StringConstant'', tok_value = [dquote, newline, dquote],
            tok_line = 1, tok_start_col = 1, tok_end_col = 3\<rparr>,
          \<lparr>tok_type = ''T_Identifier'', tok_value = ''x'', tok_line = 1,
            tok_start_col = 5, tok_end_col = 5\<rparr>] \<and>
   count_list ([dquote, newline, dquote] @ '' '') newline = 1"
  by code_simp

section \<open>What the scan produces\<close>

lemma match_groups_None:
  "match_groups groups prev s = None \<Longrightarrow> (kind, p) \<in> set groups \<Longrightarrow> p prev s = None"
  by (induction groups) (auto split: option.splits)

lemma token_regex_total: "token_regex prev (c # cs) \<noteq> None"
proof
  assume none: "token_regex prev (c # cs) = None"
  have "literal [newline] prev (c # cs) = None"
    using none unfolding token_regex_def
    by (rule match_groups_None [where kind = "''NEWLINE''"]) (simp add: token_specification_def)
  moreover have "any_char prev (c # cs) = None"
    using none unfolding token_regex_def
    by (rule match_groups_None [where kind = "''MISMATCH''"]) (simp add: token_specification_def)
  ultimately show False
    by (simp add: literal_def any_char_def split: if_splits)
qed

lemma finditer_concat: "concat (map group (finditer prev pos s)) = s"
proof (induction prev pos s rule: finditer.induct)
  case (1 prev pos)
  show ?case by simp
next
  case (2 prev pos c cs)
  obtain kind n where m: "token_regex prev (c # cs) = Some (kind, n)"
    using token_regex_total [of prev c cs] by (cases "token_regex prev (c # cs)") auto
  have "take n (c # cs) @ drop n (c # cs) = c # cs" by (rule append_take_drop_id)
  with "2.IH"(2) [OF m refl] m show ?case by simp
qed

lemma finditer_match:
  "m \<in> set (finditer prev pos s) \<Longrightarrow>
     \<exists>prev' s' n. token_regex prev' s' = Some (lastgroup m, n) \<and> group m = take n s'"
proof (induction prev pos s rule: finditer.induct)
  case (1 prev pos)
  then show ?case by simp
next
  case (2 prev pos c cs)
  obtain kind n where r: "token_regex prev (c # cs) = Some (kind, n)"
    using token_regex_total [of prev c cs] by (cases "token_regex prev (c # cs)") auto
  from "2.prems" r consider
      "m = \<lparr>lastgroup = kind, group = take n (c # cs), mo_start = pos, mo_end = pos + n\<rparr>"
    | "m \<in> set (finditer (last_char (take n (c # cs))) (pos + n) (drop n (c # cs)))"
    by auto
  then show ?case
  proof cases
    case 1
    with r show ?thesis by auto
  next
    case 2
    from "2.IH"(2) [OF r refl 2] show ?thesis .
  qed
qed

lemma token_regex_kind:
  "token_regex prev s = Some (kind, n) \<Longrightarrow> kind \<in> fst ` set token_specification"
  unfolding token_regex_def by (force dest: match_groups_Some)

lemma finditer_lastgroup:
  "m \<in> set (finditer prev pos s) \<Longrightarrow> lastgroup m \<in> fst ` set token_specification"
  using finditer_match token_regex_kind by blast

lemma tokenize_loop_types:
  "tokenize_loop ms acc line current_position = Inr tokens \<Longrightarrow> t \<in> set tokens \<Longrightarrow>
     t \<in> set acc \<or> tok_type t \<in> lastgroup ` set ms"
proof (induction ms arbitrary: acc line current_position)
  case Nil
  then show ?case by simp
next
  case (Cons mo mos)
  from Cons.prems Cons.IH show ?case
    by (fastforce simp: Let_def split: if_splits)
qed

lemma tokenize_types:
  assumes "tokenize text = Inr tokens" "t \<in> set tokens"
  shows "tok_type t \<in> fst ` set token_specification"
  using tokenize_loop_types [OF assms(1) [unfolded tokenize_def] assms(2)] finditer_lastgroup
  by auto

section \<open>No token for else\<close>

definition if_example_tokens :: "token list" where
  "if_example_tokens =
    [\<lparr>tok_type = ''T_If'', tok_value = ''if'', tok_line = 1, tok_start_col = 1, tok_end_col = 2\<rparr>,
     \<lparr>tok_type = ''T_Identifier'', tok_value = ''a'', tok_line = 1, tok_start_col = 4, tok_end_col = 4\<rparr>,
     \<lparr>tok_type = ''T_LBrace'', tok_value = ''{'', tok_line = 1, tok_start_col = 6, tok_end_col = 6\<rparr>,
     \<lparr>tok_type = ''T_RBrace'', tok_value = ''}'', tok_line = 1, tok_start_col = 7, tok_end_col = 7\<rparr>,
     \<lparr>tok_type = ''T_Identifier'', tok_value = ''else'', tok_line = 1, tok_start_col = 9, tok_end_col = 12\<rparr>,
     \<lparr>tok_type = ''T_LBrace'', tok_value = ''{'', tok_line = 1, tok_start_col = 14, tok_end_col = 14\<rparr>,
     \<lparr>tok_type = ''T_RBrace'', tok_value = ''}'', tok_line = 1, tok_start_col = 15, tok_end_col = 15\<rparr>]"

lemma tokenize_if_example: "tokenize ''if a {} else {}'' = Inr if_example_tokens"
  by code_simp

lemma tokenize_else: 
  "tokenize ''else'' =
     Inr [\<lparr>tok_type = ''T_Identifier'', tok_value = ''else'', tok_line = 1,
            tok_start_col = 1, tok_end_col = 4\<rparr>]"
  by code_simp

lemma not_else_kind: "''T_Else'' \<notin> fst ` set token_specification"
  by (simp add: token_specification_def)

text \<open>
  C8. In the tokens of a text that tokenizes, no token has the type \<open>T_Else\<close>; the
  word \<open>else\<close> is a \<open>T_Identifier\<close>. On such tokens \<open>parse_if_else\<close> is the
  production without its \<open>else\<close> branch: it parses the condition and one block, and the
  text it returns has the empty else block.
\<close>

theorem scanner_emits_no_else:
  assumes "tokenize text = Inr tokens"
  shows "(\<forall>t \<in> set tokens. tok_type t \<noteq> ''T_Else'') \<and>
    parse_if_else (Suc n) tokens p =
      (case parse_expression tokens (consume p) of
         Inl e \<Rightarrow> Some (Inl e)
       | Inr (condition, p1) \<Rightarrow>
           (case parse_block n tokens p1 of
              None \<Rightarrow> None
            | Some (Inl e) \<Rightarrow> Some (Inl e)
            | Some (Inr (block, p2)) \<Rightarrow> Some (Inr (if_else_text condition block [], p2)))) \<and>
    tokenize ''else'' =
      Inr [\<lparr>tok_type = ''T_Identifier'', tok_value = ''else'', tok_line = 1,
             tok_start_col = 1, tok_end_col = 4\<rparr>]"
proof -
  have no_else: "tok_type t \<noteq> ''T_Else''" if "t \<in> set tokens" for t
    using tokenize_types [OF assms that] not_else_kind by metis
  have cur: "tok_type t \<noteq> ''T_Else''" if "current_token tokens q = Some t" for q t
    using that no_else by (auto simp: current_token_def split: if_splits)
  have "parse_if_else (Suc n) tokens p =
      (case parse_expression tokens (consume p) of
         Inl e \<Rightarrow> Some (Inl e)
       | Inr (condition, p1) \<Rightarrow>
           (case parse_block n tokens p1 of
              None \<Rightarrow> None
            | Some (Inl e) \<Rightarrow> Some (Inl e)
            | Some (Inr (block, p2)) \<Rightarrow> Some (Inr (if_else_text condition block [], p2))))"
    by (auto split: sum.splits option.splits prod.splits dest: cur)
  with no_else tokenize_else show ?thesis by blast
qed

theorem scanner_emits_no_else_witness:
  "tokenize ''if a {} else {}'' = Inr if_example_tokens \<and>
   tok_type (if_example_tokens ! 4) = ''T_Identifier'' \<and>
   parse_if_else 3 if_example_tokens 0 =
     Some (Inr (if_else_text (Some ''FieldAccess: a'') [] [], 4))"
proof -
  have e: "parse_expression if_example_tokens (consume 0) = Inr (Some ''FieldAccess: a'', 2)"
    by code_simp
  have b: "parse_block 2 if_example_tokens 2 = Some (Inr ([], 4))"
    by code_simp
  have "parse_if_else (Suc 2) if_example_tokens 0 =
     Some (Inr (if_else_text (Some ''FieldAccess: a'') [] [], 4))"
    using scanner_emits_no_else [OF tokenize_if_example, of 2 0] by (simp add: e b)
  moreover have "tok_type (if_example_tokens ! 4) = ''T_Identifier''"
    by (simp add: if_example_tokens_def)
  moreover have "Suc 2 = 3" by simp
  ultimately show ?thesis using tokenize_if_example by simp
qed

end
